theory Spec2Isabelle
  imports Main "HOL-Library.Word"
begin

section \<open>Host values crossing the binding boundary\<close>

text \<open>
  The values the native layer receives from the scripting host (\<open>Napi::Value\<close>).
  Numbers are modelled by their integral value; a raw image object is a finite map
  from property names to values. A buffer is a sequence of bytes.
\<close>

type_synonym byte = "8 word"

datatype napi_value =
    JsUndefined
  | JsNull
  | JsBoolean bool
  | JsNumber int
  | JsString string
  | JsBuffer "byte list"
  | JsObject "string \<Rightarrow> napi_value option"

type_synonym napi_object = "string \<Rightarrow> napi_value option"

fun IsUndefined :: "napi_value \<Rightarrow> bool" where
  "IsUndefined JsUndefined = True"
| "IsUndefined _ = False"

fun IsNull :: "napi_value \<Rightarrow> bool" where
  "IsNull JsNull = True"
| "IsNull _ = False"

fun IsBuffer :: "napi_value \<Rightarrow> bool" where
  "IsBuffer (JsBuffer _) = True"
| "IsBuffer _ = False"

fun IsNumber :: "napi_value \<Rightarrow> bool" where
  "IsNumber (JsNumber _) = True"
| "IsNumber _ = False"

fun IsString :: "napi_value \<Rightarrow> bool" where
  "IsString (JsString _) = True"
| "IsString _ = False"


text \<open>A buffer is an object of the host too, so \<open>IsObject\<close> holds of both.\<close>

fun IsObject :: "napi_value \<Rightarrow> bool" where
  "IsObject (JsObject _) = True"
| "IsObject (JsBuffer _) = True"
| "IsObject _ = False"

definition Has :: "napi_object \<Rightarrow> string \<Rightarrow> bool" where
  "Has obj k = (obj k \<noteq> None)"

definition Get :: "napi_object \<Rightarrow> string \<Rightarrow> napi_value" where
  "Get obj k = (case obj k of None \<Rightarrow> JsUndefined | Some v \<Rightarrow> v)"

section \<open>Machine integers and their decimal rendering\<close>

text \<open>
  \<open>int32\<close> is the value a C++ \<open>int\<close> holds after a computation whose exact result is
  the argument; \<open>size_t_of_int\<close> is the conversion of an \<open>int\<close> to the 64-bit unsigned
  \<open>size_t\<close>. For a conversion from a number (\<open>Int32Value\<close>) and for a narrowing from
  \<open>size_t\<close> the two's complement wrap-around is what the language gives. For a signed
  product that leaves the range the language leaves the result undefined; the model
  takes the wrap-around there too, and every general statement below about the
  expected byte count is made for products below \<open>2^31\<close> only.
\<close>

definition int32 :: "int \<Rightarrow> int" where
  "int32 n = (n + 2 ^ 31) mod 2 ^ 32 - 2 ^ 31"

definition size_t_of_int :: "int \<Rightarrow> nat" where
  "size_t_of_int n = nat (n mod 2 ^ 64)"

definition digit_char :: "nat \<Rightarrow> char" where
  "digit_char d = ''0123456789'' ! d"

function to_string_nat :: "nat \<Rightarrow> string" where
  "to_string_nat n =
     (if n < 10 then [digit_char n] else to_string_nat (n div 10) @ [digit_char (n mod 10)])"
  by pat_completeness auto
termination
  by (relation "measure id") auto

declare to_string_nat.simps [simp del]

definition to_string :: "int \<Rightarrow> string" where
  "to_string i = (if i < 0 then CHR ''-'' # to_string_nat (nat (- i)) else to_string_nat (nat i))"

section \<open>Failures of the normalizer\<close>

text \<open>
  One constructor for each place where \<open>InputToMat\<close> sets \<open>errorMsg\<close> and returns the
  empty matrix, carrying the values the message interpolates; \<open>NapiException\<close> is the
  exception an accessor of the binding library throws when the value has the wrong kind.
  \<open>what\<close> renders the message the caller attaches to the thrown error.
\<close>

datatype error =
    InputNullOrUndefined
  | InvalidImageObject string
  | NonPositiveDimensions int int
  | DimensionsTooLarge int
  | UnsupportedDtype string
  | UnsupportedColorSpace string
  | DataTooLarge nat nat
  | DataLengthMismatch nat int int int nat
  | UnsupportedChannelCount int
  | InvalidPixelCount
  | CannotInferChannels nat nat
  | NoDefaultColorSpace int
  | FailedToCreateMat int int
  | MatSizeMismatch nat nat
  | DecodeFailed
  | InvalidInput
  | NapiException string

fun what :: "error \<Rightarrow> string" where
  "what InputNullOrUndefined = ''Input is null or undefined''"
| "what (InvalidImageObject msg) = ''Invalid image object: '' @ msg"
| "what (NonPositiveDimensions w h) =
     ''Width and height must be positive numbers (width: '' @ to_string w @
     '', height: '' @ to_string h @ '')''"
| "what (DimensionsTooLarge m) = ''Image dimensions too large (max: '' @ to_string m @ '')''"
| "what (UnsupportedDtype dtype) =
     ''Unsupported dtype: '' @ dtype @ ''. Only 'uint8' is currently supported.''"
| "what (UnsupportedColorSpace cs) =
     ''Unsupported colorSpace: '' @ cs @ ''. Supported values: GRAY, RGB, BGR, RGBA, BGRA''"
| "what (DataTooLarge expectedBytes m) =
     ''Image data too large: '' @ to_string_nat expectedBytes @ '' bytes (max: '' @
     to_string_nat m @ '' bytes)''"
| "what (DataLengthMismatch expectedBytes w h c len) =
     ''Data length mismatch: expected '' @ to_string_nat expectedBytes @ '' bytes ('' @
     to_string w @ ''x'' @ to_string h @ ''x'' @ to_string c @ ''), got '' @
     to_string_nat len @ '' bytes''"
| "what (UnsupportedChannelCount c) = ''Unsupported channel count: '' @ to_string c"
| "what InvalidPixelCount = ''Invalid image dimensions: width and height must be > 0''"
| "what (CannotInferChannels len pixelCount) =
     ''Cannot infer channels: data.length ('' @ to_string_nat len @
     '') is not divisible by width*height ('' @ to_string_nat pixelCount @ '')''"
| "what (NoDefaultColorSpace c) =
     ''Cannot determine default colorSpace for '' @ to_string c @ '' channels''"
| "what (FailedToCreateMat w h) =
     ''Failed to create Mat with dimensions '' @ to_string w @ ''x'' @ to_string h"
| "what (MatSizeMismatch matDataSize len) =
     ''Internal error: Mat data size ('' @ to_string_nat matDataSize @
     '') doesn't match buffer length ('' @ to_string_nat len @ '')''"
| "what DecodeFailed = ''Failed to decode image buffer''"
| "what InvalidInput = ''Invalid input: Expected Buffer or raw image object''"
| "what (NapiException msg) = msg"

text \<open>
  \<open>As<Napi::String>().Utf8Value()\<close>: the string's text, or the binding library's
  exception when the value is not a string.
\<close>

definition Utf8Value :: "napi_value \<Rightarrow> error + string" where
  "Utf8Value v = (case v of JsString s \<Rightarrow> Inr s | _ \<Rightarrow> Inl (NapiException ''A string was expected''))"

section \<open>Validation of a raw image object\<close>

definition IsValidBuffer :: "napi_value \<Rightarrow> bool" where
  "IsValidBuffer val = (\<not> IsUndefined val \<and> \<not> IsNull val \<and> IsBuffer val)"

definition IsValidNumber :: "napi_value \<Rightarrow> bool" where
  "IsValidNumber val = (\<not> IsUndefined val \<and> \<not> IsNull val \<and> IsNumber val)"

definition IsValidString :: "napi_value \<Rightarrow> bool" where
  "IsValidString val = (\<not> IsUndefined val \<and> \<not> IsNull val \<and> IsString val)"

text \<open>
  \<open>IsValidImageObject\<close> returns \<open>Inr ()\<close> for \<open>true\<close> and \<open>Inl msg\<close> for \<open>false\<close> with
  \<open>errorMsg = msg\<close>.
\<close>

definition quoted :: "string \<Rightarrow> string" where
  "quoted s = CHR 0x27 # s @ [CHR 0x27]"

definition IsValidImageObject :: "napi_object \<Rightarrow> string + unit" where
  "IsValidImageObject obj =
    (if \<not> Has obj ''data'' then Inl (''Missing required property '' @ quoted ''data'')
     else if \<not> Has obj ''width'' then Inl (''Missing required property '' @ quoted ''width'')
     else if \<not> Has obj ''height'' then Inl (''Missing required property '' @ quoted ''height'')
     else
       let dataVal = Get obj ''data''; widthVal = Get obj ''width''; heightVal = Get obj ''height''
       in
       if IsUndefined dataVal \<or> IsNull dataVal then Inl ''Property 'data' is null or undefined''
       else if IsUndefined widthVal \<or> IsNull widthVal then Inl ''Property 'width' is null or undefined''
       else if IsUndefined heightVal \<or> IsNull heightVal then Inl ''Property 'height' is null or undefined''
       else if \<not> IsValidBuffer dataVal then Inl ''Property 'data' must be a Buffer''
       else if \<not> IsValidNumber widthVal then Inl ''Property 'width' must be a number''
       else if \<not> IsValidNumber heightVal then Inl ''Property 'height' must be a number''
       else if Has obj ''dtype'' \<and>
               (let dtypeVal = Get obj ''dtype''
                in \<not> IsUndefined dtypeVal \<and> \<not> IsNull dtypeVal \<and> \<not> IsValidString dtypeVal)
         then Inl ''Property 'dtype' must be a string''
       else if Has obj ''colorSpace'' \<and>
               (let colorSpaceVal = Get obj ''colorSpace''
                in \<not> IsUndefined colorSpaceVal \<and> \<not> IsNull colorSpaceVal \<and> \<not> IsValidString colorSpaceVal)
         then Inl ''Property 'colorSpace' must be a string''
       else if Has obj ''channels'' \<and>
               (let channelsVal = Get obj ''channels''
                in \<not> IsUndefined channelsVal \<and> \<not> IsNull channelsVal \<and>
                   \<not> IsValidNumber channelsVal \<and> \<not> IsValidString channelsVal)
         then Inl ''Property 'channels' must be a number or string''
       else Inr ())"

section \<open>The pixel matrix\<close>

text \<open>
  \<open>cv::Mat\<close> restricted to what this code uses of it: one byte per channel, rows,
  columns, channel count and the tightly packed byte buffer.
\<close>

record Mat =
  rows :: nat
  cols :: nat
  channels :: nat
  data :: "byte list"

datatype cvtype = CV_8UC1 | CV_8UC3 | CV_8UC4

fun CV_MAT_CN :: "cvtype \<Rightarrow> nat" where
  "CV_MAT_CN CV_8UC1 = 1"
| "CV_MAT_CN CV_8UC3 = 3"
| "CV_MAT_CN CV_8UC4 = 4"

definition total :: "Mat \<Rightarrow> nat" where
  "total m = rows m * cols m"

definition elemSize :: "Mat \<Rightarrow> nat" where
  "elemSize m = channels m"

definition empty :: "Mat \<Rightarrow> bool" where
  "empty m = (total m = 0)"

text \<open>The default-constructed matrix \<open>cv::Mat()\<close>.\<close>

definition Mat0 :: Mat where
  "Mat0 = \<lparr>rows = 0, cols = 0, channels = 1, data = []\<rparr>"

text \<open>
  \<open>cv::Mat(rows, cols, type)\<close> allocates the buffer; its contents are unspecified until
  written and are modelled as zero bytes.
\<close>

definition Mat_create :: "int \<Rightarrow> int \<Rightarrow> cvtype \<Rightarrow> Mat" where
  "Mat_create r c t =
     \<lparr>rows = nat r, cols = nat c, channels = CV_MAT_CN t,
      data = replicate (nat r * nat c * CV_MAT_CN t) 0\<rparr>"

definition memcpy :: "byte list \<Rightarrow> byte list \<Rightarrow> nat \<Rightarrow> byte list" where
  "memcpy dst src n = take n src @ drop n dst"

text \<open>
  The channel permutations of the image-processing library: \<open>COLOR_RGB2BGR\<close> exchanges
  the first and third byte of every 3-byte pixel, \<open>COLOR_RGBA2BGRA\<close> the first and third
  byte of every 4-byte pixel.
\<close>

fun swap_RB3 :: "byte list \<Rightarrow> byte list" where
  "swap_RB3 (r # g # b # rest) = b # g # r # swap_RB3 rest"
| "swap_RB3 _ = []"

fun swap_RB4 :: "byte list \<Rightarrow> byte list" where
  "swap_RB4 (r # g # b # a # rest) = b # g # r # a # swap_RB4 rest"
| "swap_RB4 _ = []"

definition cvtColor_RGB2BGR :: "Mat \<Rightarrow> Mat" where
  "cvtColor_RGB2BGR m = m\<lparr>channels := 3, data := swap_RB3 (data m)\<rparr>"

definition cvtColor_RGBA2BGRA :: "Mat \<Rightarrow> Mat" where
  "cvtColor_RGBA2BGRA m = m\<lparr>channels := 4, data := swap_RB4 (data m)\<rparr>"

section \<open>The image normalizer\<close>

definition MAX_IMAGE_DIMENSION :: int where
  "MAX_IMAGE_DIMENSION = 32768"

definition MAX_BUFFER_SIZE :: nat where
  "MAX_BUFFER_SIZE = 500 * 1024 * 1024"

text \<open>The \<open>if\<close> chain on \<open>colorSpace\<close> that fixes \<open>channels\<close> and \<open>cvType\<close>.\<close>

definition colorSpace_format :: "string \<Rightarrow> (int \<times> cvtype) option" where
  "colorSpace_format colorSpace =
    (if colorSpace = ''GRAY'' then Some (1, CV_8UC1)
     else if colorSpace = ''RGB'' \<or> colorSpace = ''BGR'' then Some (3, CV_8UC3)
     else if colorSpace = ''RGBA'' \<or> colorSpace = ''BGRA'' then Some (4, CV_8UC4)
     else None)"

text \<open>
  The format resolution of \<open>InputToMat\<close> (the three formats: colorSpace field, channels
  field, inference from the data size). It returns the local variables \<open>channels\<close>
  (written \<open>nchannels\<close>, the record field having the name), \<open>cvType\<close> and
  \<open>colorSpace\<close> as they stand when the matrix is about to be allocated. The products
  are computed in \<open>int\<close> and then converted to \<open>size_t\<close>, the quotient of the
  inference is computed in \<open>size_t\<close> and stored in an \<open>int\<close>.
\<close>

definition InputToMat_format ::
  "napi_object \<Rightarrow> byte list \<Rightarrow> int \<Rightarrow> int \<Rightarrow> error + (int \<times> cvtype \<times> string)" where
  "InputToMat_format obj dataBuf width height =
    (if Has obj ''colorSpace'' then
       (case Utf8Value (Get obj ''colorSpace'') of
          Inl e \<Rightarrow> Inl e
        | Inr colorSpace \<Rightarrow>
            (case colorSpace_format colorSpace of
               None \<Rightarrow> Inl (UnsupportedColorSpace colorSpace)
             | Some (nchannels, cvType) \<Rightarrow>
                 let expectedBytes = size_t_of_int (int32 (int32 (width * height) * nchannels))
                 in
                 if expectedBytes > MAX_BUFFER_SIZE then Inl (DataTooLarge expectedBytes MAX_BUFFER_SIZE)
                 else if length dataBuf \<noteq> expectedBytes
                   then Inl (DataLengthMismatch expectedBytes width height nchannels (length dataBuf))
                 else Inr (nchannels, cvType, colorSpace)))
     else if Has obj ''channels'' then
       (case Get obj ''channels'' of
          JsNumber n \<Rightarrow>
            let nchannels = int32 n
            in
            if nchannels = 1 then Inr (nchannels, CV_8UC1, ''GRAY'')
            else if nchannels = 3 then Inr (nchannels, CV_8UC3, ''RGB'')
            else if nchannels = 4 then Inr (nchannels, CV_8UC4, ''RGBA'')
            else Inl (UnsupportedChannelCount nchannels)
        | _ \<Rightarrow> Inr (0, CV_8UC3, ''''))
     else
       let pixelCount = size_t_of_int (int32 (width * height))
       in
       if pixelCount = 0 then Inl InvalidPixelCount
       else
         let nchannels = int32 (int (length dataBuf div pixelCount))
         in
         if length dataBuf mod pixelCount \<noteq> 0
           then Inl (CannotInferChannels (length dataBuf) pixelCount)
         else if nchannels = 1 then Inr (nchannels, CV_8UC1, ''GRAY'')
         else if nchannels = 3 then Inr (nchannels, CV_8UC3, ''RGB'')
         else if nchannels = 4 then Inr (nchannels, CV_8UC4, ''RGBA'')
         else Inl (NoDefaultColorSpace nchannels))"

text \<open>
  The rest of the raw-object path: allocate the matrix, compare its size with the
  buffer, copy the bytes, and permute RGB/RGBA into the canonical order. The allocation
  is taken to succeed.
\<close>

definition InputToMat_build :: "byte list \<Rightarrow> int \<Rightarrow> int \<Rightarrow> cvtype \<Rightarrow> string \<Rightarrow> error + Mat" where
  "InputToMat_build dataBuf width height cvType colorSpace =
    (let mat = Mat_create height width cvType
     in
     if empty mat then Inl (FailedToCreateMat width height)
     else
       let matDataSize = total mat * elemSize mat
       in
       if matDataSize \<noteq> length dataBuf then Inl (MatSizeMismatch matDataSize (length dataBuf))
       else
         let mat = mat\<lparr>data := memcpy (data mat) dataBuf (length dataBuf)\<rparr>
         in
         if colorSpace = ''RGB'' then Inr (cvtColor_RGB2BGR mat)
         else if colorSpace = ''RGBA'' then Inr (cvtColor_RGBA2BGRA mat)
         else Inr mat)"

text \<open>
  The raw-object branch of \<open>InputToMat\<close>. After the validation \<open>data\<close>, \<open>width\<close> and
  \<open>height\<close> are a buffer and two numbers (the last case of the match is not
  reachable); the numbers are read with \<open>Int32Value\<close>. The \<open>dtype\<close> check is made
  only when the property exists, which is written here as reading \<open>uint8\<close> for a
  missing one.
\<close>

definition InputToMat_raw :: "napi_object \<Rightarrow> error + Mat" where
  "InputToMat_raw obj =
    (case IsValidImageObject obj of
       Inl errorMsg \<Rightarrow> Inl (InvalidImageObject errorMsg)
     | Inr _ \<Rightarrow>
        (case (Get obj ''data'', Get obj ''width'', Get obj ''height'') of
           (JsBuffer dataBuf, JsNumber w, JsNumber h) \<Rightarrow>
             let width = int32 w; height = int32 h
             in
             if width \<le> 0 \<or> height \<le> 0 then Inl (NonPositiveDimensions width height)
             else if width > MAX_IMAGE_DIMENSION \<or> height > MAX_IMAGE_DIMENSION
               then Inl (DimensionsTooLarge MAX_IMAGE_DIMENSION)
             else
               (case (if Has obj ''dtype'' then Utf8Value (Get obj ''dtype'') else Inr ''uint8'') of
                  Inl e \<Rightarrow> Inl e
                | Inr dtype \<Rightarrow>
                    if dtype \<noteq> ''uint8'' then Inl (UnsupportedDtype dtype)
                    else
                      (case InputToMat_format obj dataBuf width height of
                         Inl e \<Rightarrow> Inl e
                       | Inr (nchannels, cvType, colorSpace) \<Rightarrow>
                           InputToMat_build dataBuf width height cvType colorSpace))
         | _ \<Rightarrow> Inl (NapiException ''Invalid argument'')))"

text \<open>
  \<open>InputToMat\<close>. The codec that decodes an encoded image (\<open>cv::imdecode\<close>) is a
  parameter; it returns an empty matrix when it fails.
\<close>

definition InputToMat :: "(byte list \<Rightarrow> Mat) \<Rightarrow> napi_value \<Rightarrow> error + Mat" where
  "InputToMat imdecode input =
    (if IsUndefined input \<or> IsNull input then Inl InputNullOrUndefined
     else if IsObject input \<and> \<not> IsBuffer input then
       (case input of JsObject obj \<Rightarrow> InputToMat_raw obj | _ \<Rightarrow> Inl InvalidInput)
     else if IsBuffer input then
       (case input of
          JsBuffer buf \<Rightarrow>
            let mat = imdecode buf
            in if empty mat then Inl DecodeFailed else Inr mat
        | _ \<Rightarrow> Inl InvalidInput)
     else Inl InvalidInput)"

section \<open>Serialization and the convert operation\<close>

text \<open>What an entry point throws into the host: a \<open>TypeError\<close> or a plain \<open>Error\<close>.\<close>

datatype js_exception = JsTypeError string | JsError string

definition ExtractChannelOrder :: "string \<Rightarrow> string" where
  "ExtractChannelOrder chFull =
     (if CHR ''_'' \<in> set chFull then tl (dropWhile (\<lambda>c. c \<noteq> CHR ''_'') chFull) else chFull)"

text \<open>
  \<open>MatToRawJS\<close> copies \<open>total * elemSize\<close> bytes of the matrix into a fresh array and
  wraps it in a raw image object.
\<close>

definition MatToRawJS :: "Mat \<Rightarrow> string \<Rightarrow> napi_value" where
  "MatToRawJS m order =
     (let bytes = total m * elemSize m;
          raw = memcpy (replicate bytes 0) (data m) bytes
      in JsObject
          [''width'' \<mapsto> JsNumber (int (cols m)),
           ''height'' \<mapsto> JsNumber (int (rows m)),
           ''colorSpace'' \<mapsto> JsString order,
           ''dtype'' \<mapsto> JsString ''uint8'',
           ''data'' \<mapsto> JsBuffer raw])"

definition GetColorSpaceFromInput :: "napi_object \<Rightarrow> Mat \<Rightarrow> error + string" where
  "GetColorSpaceFromInput obj mat =
    (if Has obj ''colorSpace'' then Utf8Value (Get obj ''colorSpace'')
     else if channels mat = 1 then Inr ''GRAY''
     else if channels mat = 3 then Inr ''RGB''
     else if channels mat = 4 then Inr ''RGBA''
     else Inr ''RGB'')"

definition conversion_failed :: string where
  "conversion_failed = ''Failed to convert input to valid image matrix''"

definition convertToMat :: "(byte list \<Rightarrow> Mat) \<Rightarrow> napi_value list \<Rightarrow> js_exception + napi_value" where
  "convertToMat imdecode info =
    (if length info < 1
       then Inl (JsTypeError ''Expected 1 argument: image data (Buffer or raw image object)'')
     else if \<not> IsObject (info ! 0) \<and> \<not> IsBuffer (info ! 0)
       then Inl (JsTypeError ''Argument must be a Buffer or image object'')
     else
       (case InputToMat imdecode (info ! 0) of
          Inl e \<Rightarrow> Inl (JsError (if what e = [] then conversion_failed else what e))
        | Inr mat \<Rightarrow>
            if empty mat then Inl (JsError conversion_failed)
            else
              (case (case info ! 0 of
                       JsObject obj \<Rightarrow> GetColorSpaceFromInput obj mat
                     | _ \<Rightarrow>
                         if channels mat = 1 then Inr ''GRAY''
                         else if channels mat = 4 then Inr ''BGRA''
                         else Inr ''BGR'') of
                 Inl e \<Rightarrow> Inl (JsError (what e))
               | Inr channelOrder \<Rightarrow> Inr (MatToRawJS mat channelOrder))))"

section \<open>Decoder adapters\<close>
















section \<open>Preprocessing adapters\<close>

text \<open>
  The image-processing library's primitives are external. What the code relies on is
  their shape: the grayscale conversion maps every pixel (3 or 4 bytes) to one byte,
  histogram equalization maps every byte through a table computed from the image, and
  \<open>THRESH_BINARY | THRESH_OTSU\<close> writes \<open>maxval\<close> where the byte exceeds the level
  chosen by Otsu's method and \<open>0\<close> elsewhere. The per-pixel luminance, the
  equalization table and Otsu's level are parameters.
\<close>

record imgproc =
  luminance :: "byte \<Rightarrow> byte \<Rightarrow> byte \<Rightarrow> byte"
  equalize_table :: "byte list \<Rightarrow> byte \<Rightarrow> byte"
  otsu_level :: "byte list \<Rightarrow> byte"

fun gray_of_BGR :: "(byte \<Rightarrow> byte \<Rightarrow> byte \<Rightarrow> byte) \<Rightarrow> byte list \<Rightarrow> byte list" where
  "gray_of_BGR lum (b # g # r # rest) = lum b g r # gray_of_BGR lum rest"
| "gray_of_BGR lum _ = []"

fun gray_of_BGRA :: "(byte \<Rightarrow> byte \<Rightarrow> byte \<Rightarrow> byte) \<Rightarrow> byte list \<Rightarrow> byte list" where
  "gray_of_BGRA lum (b # g # r # a # rest) = lum b g r # gray_of_BGRA lum rest"
| "gray_of_BGRA lum _ = []"

definition cvtColor_BGR2GRAY :: "imgproc \<Rightarrow> Mat \<Rightarrow> Mat" where
  "cvtColor_BGR2GRAY lib m = m\<lparr>channels := 1, data := gray_of_BGR (luminance lib) (data m)\<rparr>"

definition cvtColor_BGRA2GRAY :: "imgproc \<Rightarrow> Mat \<Rightarrow> Mat" where
  "cvtColor_BGRA2GRAY lib m = m\<lparr>channels := 1, data := gray_of_BGRA (luminance lib) (data m)\<rparr>"

definition equalizeHist :: "imgproc \<Rightarrow> Mat \<Rightarrow> Mat" where
  "equalizeHist lib m = m\<lparr>data := map (equalize_table lib (data m)) (data m)\<rparr>"


definition preprocess_original :: "imgproc \<Rightarrow> Mat \<Rightarrow> Mat" where
  "preprocess_original lib bgr =
    (if empty bgr then Mat0
     else if channels bgr = 1 then bgr
     else if channels bgr = 3 then cvtColor_BGR2GRAY lib bgr
     else if channels bgr = 4 then cvtColor_BGRA2GRAY lib bgr
     else Mat0)"

definition preprocess_histogram :: "imgproc \<Rightarrow> Mat \<Rightarrow> Mat" where
  "preprocess_histogram lib bgr =
    (if empty bgr then Mat0
     else if channels bgr = 1 then equalizeHist lib bgr
     else if channels bgr = 3 then equalizeHist lib (cvtColor_BGR2GRAY lib bgr)
     else if channels bgr = 4 then equalizeHist lib (cvtColor_BGRA2GRAY lib bgr)
     else Mat0)"


section \<open>Auxiliary notions and example inputs\<close>



text \<open>A codec that decodes nothing, for the examples (they are all raw objects).\<close>

definition no_codec :: "byte list \<Rightarrow> Mat" where
  "no_codec buf = Mat0"

text \<open>The 1x1 RGB descriptor \<open>{data: [10,20,30], width: 1, height: 1, colorSpace: "RGB"}\<close>.\<close>

definition rgb_1x1 :: napi_object where
  "rgb_1x1 = [''data'' \<mapsto> JsBuffer [10, 20, 30], ''width'' \<mapsto> JsNumber 1,
              ''height'' \<mapsto> JsNumber 1, ''colorSpace'' \<mapsto> JsString ''RGB'']"

text \<open>
  \<open>reaches_format obj d w h\<close>: the raw object passes every check of \<open>InputToMat\<close>
  that precedes the format resolution, with the buffer \<open>d\<close> and the numbers \<open>w\<close> and
  \<open>h\<close> as its width and height.
\<close>

definition reaches_format :: "napi_object \<Rightarrow> byte list \<Rightarrow> int \<Rightarrow> int \<Rightarrow> bool" where
  "reaches_format obj d w h \<longleftrightarrow>
     IsValidImageObject obj = Inr () \<and>
     obj ''data'' = Some (JsBuffer d) \<and> obj ''width'' = Some (JsNumber w) \<and>
     obj ''height'' = Some (JsNumber h) \<and>
     0 < int32 w \<and> int32 w \<le> MAX_IMAGE_DIMENSION \<and> 0 < int32 h \<and> int32 h \<le> MAX_IMAGE_DIMENSION \<and>
     (obj ''dtype'' = None \<or> obj ''dtype'' = Some (JsString ''uint8''))"

text \<open>A property of the raw image object an entry point returned (\<open>undefined\<close> if it threw).\<close>

definition raw_field :: "js_exception + napi_value \<Rightarrow> string \<Rightarrow> napi_value" where
  "raw_field r k = (case r of Inr (JsObject out) \<Rightarrow> Get out k | _ \<Rightarrow> JsUndefined)"

text \<open>Further example descriptors.\<close>

definition big_gray :: napi_object where
  "big_gray = [''data'' \<mapsto> JsBuffer [], ''width'' \<mapsto> JsNumber 23000,
               ''height'' \<mapsto> JsNumber 23000, ''channels'' \<mapsto> JsNumber 1]"

definition legacy_rgb :: napi_object where
  "legacy_rgb = [''data'' \<mapsto> JsBuffer [10, 20, 30], ''width'' \<mapsto> JsNumber 1,
                 ''height'' \<mapsto> JsNumber 1, ''channels'' \<mapsto> JsString ''int8_RGB'']"

definition numeric_rgb :: napi_object where
  "numeric_rgb = [''data'' \<mapsto> JsBuffer [10, 20, 30], ''width'' \<mapsto> JsNumber 1,
                  ''height'' \<mapsto> JsNumber 1, ''channels'' \<mapsto> JsNumber 3]"

definition legacy_gray :: napi_object where
  "legacy_gray = [''data'' \<mapsto> JsBuffer [7], ''width'' \<mapsto> JsNumber 1,
                  ''height'' \<mapsto> JsNumber 1, ''channels'' \<mapsto> JsString ''uint8_GRAY'']"







section \<open>The otsu entry point\<close>


section \<open>Example matrices, engines and detections\<close>











definition big_gray_colorSpace :: napi_object where
  "big_gray_colorSpace = [''data'' \<mapsto> JsBuffer [], ''width'' \<mapsto> JsNumber 23000,
                          ''height'' \<mapsto> JsNumber 23000, ''colorSpace'' \<mapsto> JsString ''GRAY'']"

section \<open>The decoder entry points\<close>







section \<open>Basic facts about the model\<close>

lemmas normalizer_defs =
  InputToMat_def InputToMat_raw_def IsValidImageObject_def Has_def Get_def
  IsValidBuffer_def IsValidNumber_def IsValidString_def Utf8Value_def int32_def
  MAX_IMAGE_DIMENSION_def MAX_BUFFER_SIZE_def InputToMat_format_def colorSpace_format_def
  size_t_of_int_def InputToMat_build_def Mat_create_def empty_def total_def elemSize_def
  memcpy_def cvtColor_RGB2BGR_def cvtColor_RGBA2BGRA_def

lemma IsValidBuffer_iff: "IsValidBuffer v \<longleftrightarrow> (\<exists>d. v = JsBuffer d)"
  by (cases v) (simp_all add: IsValidBuffer_def)

lemma IsValidNumber_iff: "IsValidNumber v \<longleftrightarrow> (\<exists>n. v = JsNumber n)"
  by (cases v) (simp_all add: IsValidNumber_def)

lemma IsValidString_iff: "IsValidString v \<longleftrightarrow> (\<exists>s. v = JsString s)"
  by (cases v) (simp_all add: IsValidString_def)

lemma IsValidImageObject_Inr:
  assumes "IsValidImageObject obj = Inr u"
  shows "\<exists>d w h. obj ''data'' = Some (JsBuffer d) \<and> obj ''width'' = Some (JsNumber w) \<and>
           obj ''height'' = Some (JsNumber h)"
  using assms
  by (auto simp: IsValidImageObject_def Let_def IsValidBuffer_iff IsValidNumber_iff Get_def Has_def
       split: if_splits)






lemma InputToMat_JsObject: "InputToMat imdecode (JsObject obj) = InputToMat_raw obj"
  by (simp add: InputToMat_def)

lemma InputToMat_raw_Inr:
  assumes "InputToMat_raw obj = Inr m"
  shows "\<exists>d w h n t cs. obj ''data'' = Some (JsBuffer d) \<and> obj ''width'' = Some (JsNumber w) \<and>
           obj ''height'' = Some (JsNumber h) \<and> 0 < int32 w \<and> int32 w \<le> 32768 \<and>
           0 < int32 h \<and> int32 h \<le> 32768 \<and>
           InputToMat_format obj d (int32 w) (int32 h) = Inr (n, t, cs) \<and>
           InputToMat_build d (int32 w) (int32 h) t cs = Inr m"
proof -
  from assms obtain u where v: "IsValidImageObject obj = Inr u"
    by (cases "IsValidImageObject obj") (simp_all add: InputToMat_raw_def)
  from IsValidImageObject_Inr[OF this] obtain d w h where
    "obj ''data'' = Some (JsBuffer d)" "obj ''width'' = Some (JsNumber w)"
    "obj ''height'' = Some (JsNumber h)"
    by blast
  with assms v show ?thesis
    by (auto simp: InputToMat_raw_def Get_def Let_def MAX_IMAGE_DIMENSION_def
        split: if_splits sum.splits)
qed

lemma InputToMat_build_Inr:
  assumes "InputToMat_build d w h t cs = Inr m" "0 < w" "0 < h"
  shows "length d = nat h * nat w * CV_MAT_CN t \<and> rows m = nat h \<and> cols m = nat w \<and>
         channels m = (if cs = ''RGB'' then 3 else if cs = ''RGBA'' then 4 else CV_MAT_CN t) \<and>
         data m = (if cs = ''RGB'' then swap_RB3 d else if cs = ''RGBA'' then swap_RB4 d else d)"
  using assms
  by (auto simp: InputToMat_build_def Let_def Mat_create_def total_def elemSize_def empty_def
       memcpy_def cvtColor_RGB2BGR_def cvtColor_RGBA2BGRA_def split: if_splits)

lemma InputToMat_format_colorSpace:
  assumes "obj ''colorSpace'' = Some (JsString s)" "InputToMat_format obj d w h = Inr (n, t, cs)"
  shows "cs = s \<and> colorSpace_format s = Some (n, t) \<and>
         length d = size_t_of_int (int32 (int32 (w * h) * n))"
  using assms
  by (auto simp: InputToMat_format_def Has_def Get_def Utf8Value_def Let_def
      split: option.splits if_splits)



subsection \<open>The channel permutations\<close>

lemma length_swap_RB3_div: "length (swap_RB3 xs) = 3 * (length xs div 3)"
  by (induction xs rule: swap_RB3.induct) (simp_all, arith)

lemma length_swap_RB4_div: "length (swap_RB4 xs) = 4 * (length xs div 4)"
  by (induction xs rule: swap_RB4.induct) (simp_all, arith)

lemma length_swap_RB3: "3 dvd length xs \<Longrightarrow> length (swap_RB3 xs) = length xs"
  by (simp add: length_swap_RB3_div)

lemma length_swap_RB4: "4 dvd length xs \<Longrightarrow> length (swap_RB4 xs) = length xs"
  by (simp add: length_swap_RB4_div)

lemma nth_swap_RB3:
  "3 * i + 2 < length xs \<Longrightarrow>
     swap_RB3 xs ! (3 * i) = xs ! (3 * i + 2) \<and>
     swap_RB3 xs ! (3 * i + 1) = xs ! (3 * i + 1) \<and>
     swap_RB3 xs ! (3 * i + 2) = xs ! (3 * i)"
proof (induction xs arbitrary: i rule: swap_RB3.induct)
  case (1 r g b rest)
  show ?case
  proof (cases i)
    case 0
    then show ?thesis by simp
  next
    case (Suc j)
    with "1.prems" have "3 * j + 2 < length rest" by simp
    from "1.IH"[OF this] Suc show ?thesis by simp
  qed
qed simp_all

lemma nth_swap_RB4:
  "4 * i + 3 < length xs \<Longrightarrow>
     swap_RB4 xs ! (4 * i) = xs ! (4 * i + 2) \<and>
     swap_RB4 xs ! (4 * i + 1) = xs ! (4 * i + 1) \<and>
     swap_RB4 xs ! (4 * i + 2) = xs ! (4 * i) \<and>
     swap_RB4 xs ! (4 * i + 3) = xs ! (4 * i + 3)"
proof (induction xs arbitrary: i rule: swap_RB4.induct)
  case (1 r g b a rest)
  show ?case
  proof (cases i)
    case 0
    then show ?thesis by simp
  next
    case (Suc j)
    with "1.prems" have "4 * j + 3 < length rest" by simp
    from "1.IH"[OF this] Suc show ?thesis by (simp add: add.commute)
  qed
qed simp_all

section \<open>RGB input is permuted into the canonical order\<close>

text \<open>
  Claim C7. A raw descriptor with \<open>colorSpace: "RGB"\<close> that the normalizer accepts
  yields a 3-channel matrix with as many bytes as the input, in which every pixel's
  first and third byte are exchanged and the second is kept; the 1x1 descriptor with
  bytes \<open>[10,20,30]\<close> yields the bytes \<open>[30,20,10]\<close>.
\<close>

theorem C7_rgb_normalizes_to_bgr:
  "(\<forall>obj d m.
      obj ''colorSpace'' = Some (JsString ''RGB'') \<and> obj ''data'' = Some (JsBuffer d) \<and>
      InputToMat imdecode (JsObject obj) = Inr m \<longrightarrow>
        channels m = 3 \<and> length (data m) = length d \<and>
        (\<forall>i. 3 * i + 2 < length d \<longrightarrow>
           data m ! (3 * i) = d ! (3 * i + 2) \<and>
           data m ! (3 * i + 1) = d ! (3 * i + 1) \<and>
           data m ! (3 * i + 2) = d ! (3 * i)))
   \<and> InputToMat imdecode
        (JsObject [''data'' \<mapsto> JsBuffer [10, 20, 30], ''width'' \<mapsto> JsNumber 1,
                   ''height'' \<mapsto> JsNumber 1, ''colorSpace'' \<mapsto> JsString ''RGB''])
      = Inr \<lparr>rows = 1, cols = 1, channels = 3, data = [30, 20, 10]\<rparr>"
proof (rule conjI, rule allI, rule allI, rule allI, rule impI)
  fix obj d m
  assume a: "obj ''colorSpace'' = Some (JsString ''RGB'') \<and> obj ''data'' = Some (JsBuffer d) \<and>
      InputToMat imdecode (JsObject obj) = Inr m"
  then have "InputToMat_raw obj = Inr m" by (simp add: InputToMat_JsObject)
  from InputToMat_raw_Inr[OF this] a obtain w h n t cs where
    g: "0 < int32 w" "0 < int32 h"
    and f: "InputToMat_format obj d (int32 w) (int32 h) = Inr (n, t, cs)"
    and b: "InputToMat_build d (int32 w) (int32 h) t cs = Inr m"
    by auto
  from InputToMat_format_colorSpace[OF _ f] a
  have cs: "cs = ''RGB''" "colorSpace_format ''RGB'' = Some (n, t)"
    by auto
  then have t: "t = CV_8UC3" by (simp add: colorSpace_format_def)
  from InputToMat_build_Inr[OF b g] cs t have
    len: "length d = nat (int32 h) * nat (int32 w) * 3" and ch: "channels m = 3"
    and dm: "data m = swap_RB3 d"
    by simp_all
  from len have "3 dvd length d" by simp
  then have l: "length (data m) = length d" using dm by (simp add: length_swap_RB3)
  have "\<forall>i. 3 * i + 2 < length d \<longrightarrow>
           data m ! (3 * i) = d ! (3 * i + 2) \<and>
           data m ! (3 * i + 1) = d ! (3 * i + 1) \<and>
           data m ! (3 * i + 2) = d ! (3 * i)"
    unfolding dm using nth_swap_RB3[of _ d] by blast
  with ch l show "channels m = 3 \<and> length (data m) = length d \<and>
        (\<forall>i. 3 * i + 2 < length d \<longrightarrow>
           data m ! (3 * i) = d ! (3 * i + 2) \<and>
           data m ! (3 * i + 1) = d ! (3 * i + 1) \<and>
           data m ! (3 * i + 2) = d ! (3 * i))"
    by blast
next
  show "InputToMat imdecode
        (JsObject [''data'' \<mapsto> JsBuffer [10, 20, 30], ''width'' \<mapsto> JsNumber 1,
                   ''height'' \<mapsto> JsNumber 1, ''colorSpace'' \<mapsto> JsString ''RGB''])
      = Inr \<lparr>rows = 1, cols = 1, channels = 3, data = [30, 20, 10]\<rparr>"
    by (simp add: normalizer_defs)
qed

theorem C7_rgb_normalizes_to_bgr_witness:
  "rgb_1x1 ''colorSpace'' = Some (JsString ''RGB'') \<and>
   rgb_1x1 ''data'' = Some (JsBuffer [10, 20, 30]) \<and>
   InputToMat no_codec (JsObject rgb_1x1)
     = Inr \<lparr>rows = 1, cols = 1, channels = 3, data = [30, 20, 10]\<rparr> \<and>
   channels \<lparr>rows = 1, cols = 1, channels = 3, data = [30, 20, 10]\<rparr> = 3 \<and>
   data \<lparr>rows = 1, cols = 1, channels = 3, data = [30, 20, 10 :: byte]\<rparr> ! (3 * 0)
     = [10, 20, 30] ! (3 * 0 + 2)"
proof -
  have h: "rgb_1x1 ''colorSpace'' = Some (JsString ''RGB'') \<and>
      rgb_1x1 ''data'' = Some (JsBuffer [10, 20, 30]) \<and>
      InputToMat no_codec (JsObject rgb_1x1)
        = Inr \<lparr>rows = 1, cols = 1, channels = 3, data = [30, 20, 10]\<rparr>"
    by (simp add: rgb_1x1_def normalizer_defs)
  from C7_rgb_normalizes_to_bgr[of no_codec]
  have "\<forall>obj d m.
      obj ''colorSpace'' = Some (JsString ''RGB'') \<and> obj ''data'' = Some (JsBuffer d) \<and>
      InputToMat no_codec (JsObject obj) = Inr m \<longrightarrow>
        channels m = 3 \<and> length (data m) = length d \<and>
        (\<forall>i. 3 * i + 2 < length d \<longrightarrow>
           data m ! (3 * i) = d ! (3 * i + 2) \<and>
           data m ! (3 * i + 1) = d ! (3 * i + 1) \<and>
           data m ! (3 * i + 2) = d ! (3 * i))"
    by (rule conjunct1)
  from this[rule_format, OF h] h show ?thesis by simp
qed

subsection \<open>Reaching the format resolution, building, serializing\<close>

lemmas convert_defs = convertToMat_def GetColorSpaceFromInput_def MatToRawJS_def raw_field_def

lemmas message_defs = to_string_def to_string_nat.simps digit_char_def quoted_def


lemma InputToMat_raw_reaches:
  assumes "InputToMat_raw obj = Inr m"
  shows "\<exists>d w h. reaches_format obj d w h"
proof -
  from assms obtain u where v: "IsValidImageObject obj = Inr u"
    by (cases "IsValidImageObject obj") (simp_all add: InputToMat_raw_def)
  from IsValidImageObject_Inr[OF this] obtain d w h where
    "obj ''data'' = Some (JsBuffer d)" "obj ''width'' = Some (JsNumber w)"
    "obj ''height'' = Some (JsNumber h)"
    by blast
  with assms v have "reaches_format obj d w h"
    by (cases "obj ''dtype''")
       (auto simp: reaches_format_def InputToMat_raw_def Get_def Has_def Let_def Utf8Value_def
        split: if_splits sum.splits napi_value.splits)
  then show ?thesis by blast
qed







section \<open>Convert after normalization\<close>

text \<open>
  Claim C1 at the descriptor \<open>{data: [10,20,30], width: 1, height: 1, colorSpace: "RGB"}\<close>:
  the normalizer accepts it, and Convert returns the bytes \<open>[30,20,10]\<close> under the
  label \<open>RGB\<close>. The bytes are not the input's, and the label is not the order of the
  bytes returned.
\<close>

theorem C1_convert_returns_permuted_bytes:
  "InputToMat no_codec (JsObject rgb_1x1)
     = Inr \<lparr>rows = 1, cols = 1, channels = 3, data = [30, 20, 10]\<rparr> \<and>
   Get rgb_1x1 ''data'' = JsBuffer [10, 20, 30] \<and>
   raw_field (convertToMat no_codec [JsObject rgb_1x1]) ''data'' = JsBuffer [30, 20, 10] \<and>
   raw_field (convertToMat no_codec [JsObject rgb_1x1]) ''colorSpace'' = JsString ''RGB'' \<and>
   raw_field (convertToMat no_codec [JsObject rgb_1x1]) ''data'' \<noteq> Get rgb_1x1 ''data''"
  by (simp add: rgb_1x1_def normalizer_defs convert_defs)

section \<open>The capacity check\<close>

text \<open>
  Claim C2 at the descriptor \<open>{data: <empty>, width: 23000, height: 23000, channels: 1}\<close>:
  the product exceeds the cap, the format resolution succeeds all the same (the check
  is made on the colorSpace path only), and the rejection comes after the matrix has
  been allocated, as the size comparison of the allocated matrix with the buffer. The
  same geometry declared through \<open>colorSpace: "GRAY"\<close> is rejected by the capacity
  check, within the format resolution.
\<close>

theorem C2_channels_path_has_no_capacity_check:
  "23000 * 23000 * 1 > MAX_BUFFER_SIZE \<and>
   InputToMat_format big_gray [] 23000 23000 = Inr (1, CV_8UC1, ''GRAY'') \<and>
   InputToMat no_codec (JsObject big_gray) = Inl (MatSizeMismatch 529000000 0) \<and>
   what (MatSizeMismatch 529000000 0)
     = ''Internal error: Mat data size (529000000) doesn't match buffer length (0)'' \<and>
   InputToMat_format big_gray_colorSpace [] 23000 23000
     = Inl (DataTooLarge 529000000 524288000) \<and>
   InputToMat no_codec (JsObject big_gray_colorSpace) = Inl (DataTooLarge 529000000 524288000) \<and>
   what (DataTooLarge 529000000 524288000)
     = ''Image data too large: 529000000 bytes (max: 524288000 bytes)''"
  by (simp add: big_gray_def big_gray_colorSpace_def normalizer_defs message_defs)

section \<open>A string-valued channels field\<close>

text \<open>
  Claim C6 at \<open>{data: [10,20,30], width: 1, height: 1, channels: "int8_RGB"}\<close>: the
  order token \<open>RGB\<close> is never extracted, and the bytes are not permuted, whereas the
  numeric \<open>channels: 3\<close> permutes them; and a 1x1 descriptor with
  \<open>channels: "uint8_GRAY"\<close> and one byte is rejected, the matrix being 3-channel.
\<close>

theorem C6_string_channels_ignored:
  "ExtractChannelOrder ''int8_RGB'' = ''RGB'' \<and>
   InputToMat no_codec (JsObject numeric_rgb)
     = Inr \<lparr>rows = 1, cols = 1, channels = 3, data = [30, 20, 10]\<rparr> \<and>
   InputToMat no_codec (JsObject legacy_rgb)
     = Inr \<lparr>rows = 1, cols = 1, channels = 3, data = [10, 20, 30]\<rparr> \<and>
   ExtractChannelOrder ''uint8_GRAY'' = ''GRAY'' \<and>
   InputToMat no_codec (JsObject legacy_gray) = Inl (MatSizeMismatch 3 1)"
  by (simp add: legacy_rgb_def numeric_rgb_def legacy_gray_def normalizer_defs ExtractChannelOrder_def)

section \<open>The dimension cap\<close>




section \<open>Priority of the disambiguation strategies\<close>






section \<open>Size mismatch\<close>









section \<open>Otsu preprocessing\<close>







section \<open>Decoder adapters: the grayscale requirement\<close>







end
